theory Spec2Isabelle
  imports Complex_Main "HOL-Library.Sublist"
begin

section \<open>Inventory Manager: currency logic, filters, sorting and the quote ledger\<close>

text \<open>
  A shallow embedding of the pure core of the storefront client: \<^verbatim>\<open>convertPrice\<close> and
  \<^verbatim>\<open>formatPrice\<close> (currency logic), \<^verbatim>\<open>applyFilters\<close> and \<^verbatim>\<open>sortProducts\<close>
  (filterService.js, product.js) and the quote ledger of storage.js.

  Conventions of the embedding.
  \<^item> A JavaScript string is a \<open>string\<close>: the sequence of its bytes in UTF-8. A symbol such
    as the euro sign is therefore three \<open>char\<close>s. Case folding and trimming are modelled on
    the ASCII range; the other bytes are left as they are.
  \<^item> A JavaScript number is a \<open>jsnum\<close>: \<open>NaN\<close>, one of the two infinities, or \<open>Fin r\<close>
    for the finite value \<open>r\<close>. Finite values are taken as reals: the rounding of a double and
    the sign of zero are not modelled (both zeros are \<open>Fin 0\<close>, and JavaScript's \<^verbatim>\<open>===\<close>
    identifies them too).
  \<^item> An argument that the code tests dynamically (\<^verbatim>\<open>typeof\<close>, truthiness) is a \<open>jsval\<close>;
    an argument the code uses at its declared type has that type.
  \<^item> The functions of storage.js pass the browser state along: the items of
    \<^verbatim>\<open>localStorage\<close> and the clock.
\<close>

subsection \<open>JavaScript values\<close>

datatype jsnum = NaN | PosInf | NegInf | Fin real

datatype jsval =
    JUndefined
  | JNull
  | JBool bool
  | JNum jsnum
  | JStr string
  | JObj

text \<open>\<^verbatim>\<open>ToBoolean\<close>: the falsy values are undefined, null, false, \<open>0\<close>, NaN and the empty string.\<close>

fun truthy :: "jsval \<Rightarrow> bool" where
  "truthy JUndefined = False"
| "truthy JNull = False"
| "truthy (JBool b) = b"
| "truthy (JNum NaN) = False"
| "truthy (JNum (Fin r)) = (r \<noteq> 0)"
| "truthy (JNum PosInf) = True"
| "truthy (JNum NegInf) = True"
| "truthy (JStr s) = (s \<noteq> [])"
| "truthy JObj = True"

fun typeof :: "jsval \<Rightarrow> string" where
  "typeof JUndefined = ''undefined''"
| "typeof JNull = ''object''"
| "typeof (JBool b) = ''boolean''"
| "typeof (JNum n) = ''number''"
| "typeof (JStr s) = ''string''"
| "typeof JObj = ''object''"

text \<open>The number held by a value that is known to be a number (\<open>NaN\<close> stands in elsewhere).\<close>

fun number_of :: "jsval \<Rightarrow> jsnum" where
  "number_of (JNum n) = n"
| "number_of v = NaN"

text \<open>
  The product of two numbers: NaN is contagious, infinity times zero is NaN, and the sign
  of an infinite product is the product of the signs. On finite values it is the exact
  product.
\<close>

fun is_negative :: "jsnum \<Rightarrow> bool" where
  "is_negative (Fin r) = (r < 0)"
| "is_negative NegInf = True"
| "is_negative n = False"

fun js_mul :: "jsnum \<Rightarrow> jsnum \<Rightarrow> jsnum" where
  "js_mul (Fin a) (Fin b) = Fin (a * b)"
| "js_mul x y =
     (if x = NaN \<or> y = NaN \<or> x = Fin 0 \<or> y = Fin 0 then NaN
      else if is_negative x = is_negative y then PosInf else NegInf)"

subsection \<open>Currency conversion\<close>

text \<open>
  The rate table and the symbol table are plain objects (an object literal or a parsed
  JSON object) that the code reads with a computed key, \<^verbatim>\<open>obj[key]\<close>. Such an object is
  given by the table of its own properties. A lookup that finds no own property goes on
  to \<^verbatim>\<open>Object.prototype\<close>: it gives one of the built-in functions for the names of
  \<open>Object_prototype_functions\<close>, the prototype object itself for \<^verbatim>\<open>__proto__\<close>, and
  \<^verbatim>\<open>undefined\<close> for every other key.
\<close>

type_synonym rates = "string \<rightharpoonup> jsnum"

definition Object_prototype_functions :: "string list" where
  "Object_prototype_functions =
     [''constructor'', ''hasOwnProperty'', ''isPrototypeOf'', ''propertyIsEnumerable'',
      ''toLocaleString'', ''toString'', ''valueOf'', ''__defineGetter__'',
      ''__defineSetter__'', ''__lookupGetter__'', ''__lookupSetter__'']"

datatype 'v member = Undefined_member | Own 'v | Inherited_function | Inherited_prototype

definition get_member :: "(string \<rightharpoonup> 'v) \<Rightarrow> string \<Rightarrow> 'v member" where
  "get_member obj key =
     (case obj key of
        Some v \<Rightarrow> Own v
      | None \<Rightarrow>
          if key \<in> set Object_prototype_functions then Inherited_function
          else if key = ''__proto__'' then Inherited_prototype
          else Undefined_member)"

text \<open>The lookup of the key finds no own property and ends at a member of the prototype.\<close>

definition inherited_key :: "(string \<rightharpoonup> 'v) \<Rightarrow> string \<Rightarrow> bool" where
  "inherited_key obj key =
     (obj key = None \<and> (key \<in> set Object_prototype_functions \<or> key = ''__proto__''))"

text \<open>
  \<^verbatim>\<open>!rate\<close> for the result of a lookup in the rate table (a function and an object are
  truthy), and the number that the multiplication makes of it (\<^verbatim>\<open>ToNumber\<close>: NaN for
  \<^verbatim>\<open>undefined\<close>, for a built-in function and for the prototype object).
\<close>

fun rate_missing :: "jsnum member \<Rightarrow> bool" where
  "rate_missing Undefined_member = True"
| "rate_missing (Own r) = (\<not> truthy (JNum r))"
| "rate_missing Inherited_function = False"
| "rate_missing Inherited_prototype = False"

fun rate_number :: "jsnum member \<Rightarrow> jsnum" where
  "rate_number (Own r) = r"
| "rate_number m = NaN"

text \<open>
  \<^verbatim>\<open>convertPrice(usdPrice, targetCurrency, exchangeRates)\<close>. The result is the returned
  value together with the lines written by \<^verbatim>\<open>console.warn\<close>.
\<close>

definition convertPrice :: "jsval \<Rightarrow> string \<Rightarrow> rates \<Rightarrow> jsval \<times> string list" where
  "convertPrice usdPrice targetCurrency exchangeRates =
     (if \<not> truthy usdPrice \<or> typeof usdPrice \<noteq> ''number'' then (JNum (Fin 0), [])
      else if targetCurrency = ''USD'' then (usdPrice, [])
      else
        let rate = get_member exchangeRates targetCurrency in
        if rate_missing rate then
          (usdPrice, [''Exchange rate not found for '' @ targetCurrency @ '', using USD''])
        else (JNum (js_mul (number_of usdPrice) (rate_number rate)), []))"

subsection \<open>Price formatting\<close>

definition euro_sign :: string where
  "euro_sign = [CHR 0xE2, CHR 0x82, CHR 0xAC]"

definition pound_sign :: string where
  "pound_sign = [CHR 0xC2, CHR 0xA3]"

definition yen_sign :: string where
  "yen_sign = [CHR 0xC2, CHR 0xA5]"

definition infinity_sign :: string where
  "infinity_sign = [CHR 0xE2, CHR 0x88, CHR 0x9E]"

text \<open>The own properties of the table \<^verbatim>\<open>CURRENCY_SYMBOLS\<close>.\<close>

definition CURRENCY_SYMBOLS :: "(string \<times> string) list" where
  "CURRENCY_SYMBOLS =
     [(''USD'', ''$''),
      (''EUR'', euro_sign),
      (''GBP'', pound_sign),
      (''JPY'', yen_sign),
      (''MXN'', ''$'')]"

text \<open>
  The text that a template literal makes of a built-in function of \<^verbatim>\<open>Object.prototype\<close>
  (as V8 prints it; the standard leaves the white space to the engine) and of the
  prototype object.
\<close>

definition native_function_text :: "string \<Rightarrow> string" where
  "native_function_text key =
     ''function '' @ (if key = ''constructor'' then ''Object'' else key) @
     ''() { [native code] }''"

definition prototype_text :: string where
  "prototype_text = ''[object Object]''"

text \<open>\<^verbatim>\<open>CURRENCY_SYMBOLS[currency] || '$'\<close>, which is also \<^verbatim>\<open>getCurrencySymbol\<close>.\<close>

definition getCurrencySymbol :: "string \<Rightarrow> string" where
  "getCurrencySymbol currency =
     (case get_member (map_of CURRENCY_SYMBOLS) currency of
        Undefined_member \<Rightarrow> ''$''
      | Own s \<Rightarrow> if s \<noteq> [] then s else ''$''
      | Inherited_function \<Rightarrow> native_function_text currency
      | Inherited_prototype \<Rightarrow> prototype_text)"

text \<open>
  The two built-ins that \<^verbatim>\<open>formatPrice\<close> calls are modelled on the finite values as
  follows. \<^verbatim>\<open>Math.round\<close> rounds to the nearest integer, a tie towards plus infinity.
  \<^verbatim>\<open>toLocaleString('en-US', {minimumFractionDigits, maximumFractionDigits})\<close> rounds the
  magnitude to \<open>maxFrac\<close> decimals (a tie away from zero), drops trailing zeros down to
  \<open>minFrac\<close> decimals, groups the integer digits in threes with commas and puts a minus
  sign before a negative value. Without options the locale's defaults are \<open>0\<close> and \<open>3\<close>.
\<close>

fun digits :: "nat \<Rightarrow> string" where
  "digits n =
     (if n < 10 then [''0123456789'' ! n]
      else digits (n div 10) @ [''0123456789'' ! (n mod 10)])"

declare digits.simps [simp del]

fun group3 :: "string \<Rightarrow> string" where
  "group3 (a # b # c # d # ds) = a # b # c # CHR '','' # group3 (d # ds)"
| "group3 ds = ds"

definition grouped :: "string \<Rightarrow> string" where
  "grouped ds = rev (group3 (rev ds))"

definition pad_zeros :: "nat \<Rightarrow> string \<Rightarrow> string" where
  "pad_zeros k ds = replicate (k - length ds) (CHR ''0'') @ ds"

function strip_zeros :: "nat \<Rightarrow> string \<Rightarrow> string" where
  "strip_zeros k ds =
     (if k < length ds \<and> last ds = CHR ''0'' then strip_zeros k (butlast ds) else ds)"
  by pat_completeness auto
termination
  by (relation "measure (\<lambda>(k, ds). length ds)") auto

declare strip_zeros.simps [simp del]

definition format_decimal :: "real \<Rightarrow> nat \<Rightarrow> nat \<Rightarrow> string" where
  "format_decimal r minFrac maxFrac =
     (let scaled = nat \<lfloor>\<bar>r\<bar> * 10 ^ maxFrac + 1 / 2\<rfloor>;
          whole = digits (scaled div 10 ^ maxFrac);
          decimals = strip_zeros minFrac (pad_zeros maxFrac (digits (scaled mod 10 ^ maxFrac)))
      in (if r < 0 then ''-'' else []) @ grouped whole @
         (if maxFrac = 0 \<or> decimals = [] then [] else CHR ''.'' # decimals))"

definition Math_round :: "jsnum \<Rightarrow> jsnum" where
  "Math_round n = (case n of Fin r \<Rightarrow> Fin (of_int \<lfloor>r + 1 / 2\<rfloor>) | _ \<Rightarrow> n)"

definition toLocaleString :: "jsnum \<Rightarrow> nat \<Rightarrow> nat \<Rightarrow> string" where
  "toLocaleString n minFrac maxFrac =
     (case n of
        NaN \<Rightarrow> ''NaN''
      | PosInf \<Rightarrow> infinity_sign
      | NegInf \<Rightarrow> CHR ''-'' # infinity_sign
      | Fin r \<Rightarrow> format_decimal r minFrac maxFrac)"

text \<open>
  \<^verbatim>\<open>formatPrice(price, currency)\<close>. The test \<^verbatim>\<open>isNaN(price)\<close> is reached only when
  \<^verbatim>\<open>price\<close> is a number.
\<close>

definition formatPrice :: "jsval \<Rightarrow> string \<Rightarrow> string" where
  "formatPrice price currency =
     (if typeof price \<noteq> ''number'' \<or> number_of price = NaN then
        getCurrencySymbol currency @ ''0.00''
      else
        let symbol = getCurrencySymbol currency in
        if currency = ''JPY'' then symbol @ toLocaleString (Math_round (number_of price)) 0 3
        else symbol @ toLocaleString (number_of price) 2 2)"

subsection \<open>Products and filter criteria\<close>

text \<open>
  A product as the class \<^verbatim>\<open>Product\<close> holds it. The field \<^verbatim>\<open>id\<close> is \<open>ident\<close> and
  \<^verbatim>\<open>image\<close> is \<open>image_uri\<close> here. The filter criteria are the object
  \<^verbatim>\<open>{search, category}\<close>; a field that is absent (\<^verbatim>\<open>undefined\<close>) is \<open>None\<close>.
\<close>

record rating =
  rate :: real
  count :: nat

record product =
  ident :: int
  title :: string
  price :: real
  description :: string
  category :: string
  image_uri :: string
  rating :: rating

record filters =
  search :: "string option"
  category :: "string option"

subsection \<open>String built-ins\<close>

text \<open>
  \<^verbatim>\<open>toLowerCase\<close> folds the letters A to Z, \<^verbatim>\<open>trim\<close> removes the ASCII white space
  (tab, line feed, vertical tab, form feed, carriage return, space) from both ends, and
  \<^verbatim>\<open>includes\<close> (here \<open>string_includes\<close>) scans for an occurrence of the search
  string.
\<close>

definition toLowerCase_char :: "char \<Rightarrow> char" where
  "toLowerCase_char c =
     (case map_of (zip ''ABCDEFGHIJKLMNOPQRSTUVWXYZ'' ''abcdefghijklmnopqrstuvwxyz'') c of
        None \<Rightarrow> c
      | Some l \<Rightarrow> l)"

definition toLowerCase :: "string \<Rightarrow> string" where
  "toLowerCase s = map toLowerCase_char s"

definition is_whitespace :: "char \<Rightarrow> bool" where
  "is_whitespace c =
     (c = CHR 0x09 \<or> c = CHR 0x0A \<or> c = CHR 0x0B \<or> c = CHR 0x0C \<or> c = CHR 0x0D \<or> c = CHR 0x20)"

definition trim :: "string \<Rightarrow> string" where
  "trim s = rev (dropWhile is_whitespace (rev (dropWhile is_whitespace s)))"

fun string_includes :: "string \<Rightarrow> string \<Rightarrow> bool" where
  "string_includes [] searchString = (searchString = [])"
| "string_includes (c # cs) searchString =
     (take (length searchString) (c # cs) = searchString \<or> string_includes cs searchString)"

subsection \<open>filterService.js: filters\<close>

text \<open>
  \<^verbatim>\<open>(product.title || '')\<close> is \<^verbatim>\<open>product.title\<close> for a string, so the guards do not show.
\<close>

definition filterBySearch :: "product list \<Rightarrow> string \<Rightarrow> product list" where
  "filterBySearch products query =
     (if query = [] \<or> trim query = [] then products
      else
        let searchTerm = trim (toLowerCase query) in
        filter (\<lambda>p.
          string_includes (toLowerCase (title p)) searchTerm \<or>
          string_includes (toLowerCase (description p)) searchTerm \<or>
          string_includes (toLowerCase (product.category p)) searchTerm) products)"

definition filterByCategory :: "product list \<Rightarrow> string \<Rightarrow> product list" where
  "filterByCategory products cat =
     (if cat = [] \<or> cat = ''all'' then products
      else filter (\<lambda>p. product.category p = cat) products)"

definition applyFilters :: "product list \<Rightarrow> filters \<Rightarrow> product list" where
  "applyFilters products fs =
     (let filtered = products;
          filtered = (case filters.category fs of
                        None \<Rightarrow> filtered
                      | Some c \<Rightarrow> if c \<noteq> [] then filterByCategory filtered c else filtered);
          filtered = (case filters.search fs of
                        None \<Rightarrow> filtered
                      | Some q \<Rightarrow> if q \<noteq> [] then filterBySearch filtered q else filtered)
      in filtered)"

text \<open>The methods of product.js: \<^verbatim>\<open>Product.matchesSearch\<close>, \<^verbatim>\<open>Product.isInCategory\<close> and
  \<^verbatim>\<open>ProductCollection.applyFilters\<close>.\<close>

definition matchesSearch :: "product \<Rightarrow> string \<Rightarrow> bool" where
  "matchesSearch this query =
     (if query = [] \<or> trim query = [] then True
      else
        let searchTerm = trim (toLowerCase query);
            titleMatch = string_includes (toLowerCase (title this)) searchTerm;
            descMatch = string_includes (toLowerCase (description this)) searchTerm;
            categoryMatch = string_includes (toLowerCase (product.category this)) searchTerm
        in titleMatch \<or> descMatch \<or> categoryMatch)"

definition isInCategory :: "product \<Rightarrow> string \<Rightarrow> bool" where
  "isInCategory this cat =
     (if cat = [] \<or> cat = ''all'' then True else product.category this = cat)"

definition ProductCollection_applyFilters :: "product list \<Rightarrow> filters \<Rightarrow> product list" where
  "ProductCollection_applyFilters products fs =
     (let results = products;
          results = (case filters.category fs of
                       None \<Rightarrow> results
                     | Some c \<Rightarrow> if c \<noteq> [] then filter (\<lambda>p. isInCategory p c) results else results);
          results = (case filters.search fs of
                       None \<Rightarrow> results
                     | Some q \<Rightarrow> if q \<noteq> [] then filter (\<lambda>p. matchesSearch p q) results else results)
      in results)"

subsection \<open>The filter predicates as the specification words them\<close>

text \<open>
  The category predicate passes every product when the category is absent, empty or
  \<open>all\<close>, and otherwise asks for equality with the product's category. The search
  predicate passes every product when the query is absent, empty or blank, and otherwise
  asks that the trimmed query occur, ignoring case, in the title, the description or the
  category.
\<close>

definition blank :: "string \<Rightarrow> bool" where
  "blank s = list_all is_whitespace s"

definition ci_substring :: "string \<Rightarrow> string \<Rightarrow> bool" where
  "ci_substring needle hay = sublist (toLowerCase needle) (toLowerCase hay)"

definition category_passes :: "string option \<Rightarrow> product \<Rightarrow> bool" where
  "category_passes c p =
     (case c of None \<Rightarrow> True | Some s \<Rightarrow> s = [] \<or> s = ''all'' \<or> product.category p = s)"

definition search_passes :: "string option \<Rightarrow> product \<Rightarrow> bool" where
  "search_passes q p =
     (case q of
        None \<Rightarrow> True
      | Some s \<Rightarrow>
          blank s \<or> ci_substring (trim s) (title p) \<or> ci_substring (trim s) (description p) \<or>
          ci_substring (trim s) (product.category p))"

subsection \<open>filterService.js: sorting\<close>

text \<open>
  \<^verbatim>\<open>Array.prototype.sort(comparefn)\<close> is a stable sort by the sign of the comparator: an
  element stays before the elements it does not compare greater than. The model is the
  stable insertion sort. \<^verbatim>\<open>String.prototype.localeCompare\<close> is a parameter of
  \<open>sortProducts\<close>. \<^verbatim>\<open>[...products]\<close> copies the array, so the argument is not changed,
  and \<^verbatim>\<open>a.rating?.rate || 0\<close> is the rate itself for a product of the class.
\<close>

fun insert_ordered :: "('a \<Rightarrow> 'a \<Rightarrow> real) \<Rightarrow> 'a \<Rightarrow> 'a list \<Rightarrow> 'a list" where
  "insert_ordered comparefn x [] = [x]"
| "insert_ordered comparefn x (y # ys) =
     (if comparefn x y \<le> 0 then x # y # ys else y # insert_ordered comparefn x ys)"

definition Array_sort :: "('a \<Rightarrow> 'a \<Rightarrow> real) \<Rightarrow> 'a list \<Rightarrow> 'a list" where
  "Array_sort comparefn xs = foldr (insert_ordered comparefn) xs []"

definition sortProducts :: "(string \<Rightarrow> string \<Rightarrow> real) \<Rightarrow> product list \<Rightarrow> string \<Rightarrow> product list" where
  "sortProducts localeCompare products sortBy =
     (let sorted = products in
      if sortBy = ''price-asc'' then Array_sort (\<lambda>a b. price a - price b) sorted
      else if sortBy = ''price-desc'' then Array_sort (\<lambda>a b. price b - price a) sorted
      else if sortBy = ''name-asc'' then Array_sort (\<lambda>a b. localeCompare (title a) (title b)) sorted
      else if sortBy = ''name-desc'' then Array_sort (\<lambda>a b. localeCompare (title b) (title a)) sorted
      else if sortBy = ''rating'' then
        Array_sort (\<lambda>a b.
          let ratingA = rate (rating a);
              ratingB = rate (rating b)
          in ratingB - ratingA) sorted
      else sorted)"

text \<open>Three products for the examples.\<close>

definition phone :: product where
  "phone = \<lparr>ident = 1, title = ''Smart Phone'', price = 299, description = ''A handset'',
     category = ''electronics'', image_uri = ''https://example.org/1.png'',
     rating = \<lparr>rate = 4.5, count = 12\<rparr>\<rparr>"

definition desk :: product where
  "desk = \<lparr>ident = 2, title = ''Desk'', price = 120, description = ''With a phone holder'',
     category = ''furniture'', image_uri = ''https://example.org/2.png'',
     rating = \<lparr>rate = 3, count = 4\<rparr>\<rparr>"

definition radio :: product where
  "radio = \<lparr>ident = 3, title = ''Radio'', price = 45.5, description = ''FM and AM'',
     category = ''electronics'', image_uri = ''https://example.org/3.png'',
     rating = \<lparr>rate = 4, count = 7\<rparr>\<rparr>"

subsection \<open>storage.js: the persisted state\<close>

text \<open>
  The browser state that storage.js works on: the three items of \<^verbatim>\<open>STORAGE_KEYS\<close> in
  \<^verbatim>\<open>localStorage\<close>, each absent, holding a text that \<^verbatim>\<open>JSON.parse\<close> rejects, or holding
  the value written there; whether \<^verbatim>\<open>getItem\<close> and \<^verbatim>\<open>setItem\<close> throw (the store is
  switched off or full); and the clock, as the text that \<^verbatim>\<open>new Date().toISOString()\<close>
  returns.
\<close>

datatype 'a slot = Absent | Unparseable | Stored 'a

record browser =
  item_CURRENCY :: "string slot"
  item_QUOTE_LIST :: "product list slot"
  item_LAST_UPDATE :: "string slot"
  getItem_throws :: bool
  setItem_throws :: bool
  clock :: string

text \<open>
  \<^verbatim>\<open>saveToStorage(key, value)\<close> and \<^verbatim>\<open>loadFromStorage(key, defaultValue)\<close>. The key
  is given by the update, respectively the selector, of its item. An exception of
  \<^verbatim>\<open>setItem\<close>, \<^verbatim>\<open>getItem\<close> or \<^verbatim>\<open>JSON.parse\<close> is caught: the result is \<open>False\<close>,
  respectively the default value. The lines written by \<^verbatim>\<open>console.error\<close> are left out.
\<close>

definition saveToStorage :: "(browser \<Rightarrow> browser) \<Rightarrow> browser \<Rightarrow> bool \<times> browser" where
  "saveToStorage setItem b = (if setItem_throws b then (False, b) else (True, setItem b))"

definition loadFromStorage :: "(browser \<Rightarrow> 'a slot) \<Rightarrow> 'a \<Rightarrow> browser \<Rightarrow> 'a" where
  "loadFromStorage getItem defaultValue b =
     (if getItem_throws b then defaultValue
      else case getItem b of
        Absent \<Rightarrow> defaultValue
      | Unparseable \<Rightarrow> defaultValue
      | Stored v \<Rightarrow> v)"

text \<open>The quote ledger: each operation takes the browser state and returns the new one.\<close>

definition saveQuoteList :: "product list \<Rightarrow> browser \<Rightarrow> bool \<times> browser" where
  "saveQuoteList quoteList b =
     (let (success, b1) = saveToStorage (\<lambda>s. s\<lparr>item_QUOTE_LIST := Stored quoteList\<rparr>) b in
      if success then
        (success, snd (saveToStorage (\<lambda>s. s\<lparr>item_LAST_UPDATE := Stored (clock s)\<rparr>) b1))
      else (success, b1))"

definition loadQuoteList :: "browser \<Rightarrow> product list" where
  "loadQuoteList b = loadFromStorage item_QUOTE_LIST [] b"

definition addToQuote :: "product \<Rightarrow> browser \<Rightarrow> product list \<times> browser" where
  "addToQuote p b =
     (let quoteList = loadQuoteList b;
          exists = list_ex (\<lambda>item. ident item = ident p) quoteList
      in if \<not> exists then
           (let quoteList = quoteList @ [p] in (quoteList, snd (saveQuoteList quoteList b)))
         else (quoteList, b))"

definition removeFromQuote :: "int \<Rightarrow> browser \<Rightarrow> product list \<times> browser" where
  "removeFromQuote productId b =
     (let quoteList = loadQuoteList b;
          updatedList = filter (\<lambda>item. ident item \<noteq> productId) quoteList
      in (updatedList, snd (saveQuoteList updatedList b)))"

definition clearQuote :: "browser \<Rightarrow> bool \<times> browser" where
  "clearQuote b = saveQuoteList [] b"

text \<open>The store accepts reads and writes.\<close>

definition storage_works :: "browser \<Rightarrow> bool" where
  "storage_works b = (getItem_throws b = False \<and> setItem_throws b = False)"

text \<open>A browser with an empty, working store.\<close>

definition fresh_browser :: browser where
  "fresh_browser = \<lparr>item_CURRENCY = Absent, item_QUOTE_LIST = Absent, item_LAST_UPDATE = Absent,
     getItem_throws = False, setItem_throws = False, clock = ''2024-05-01T10:00:00.000Z''\<rparr>"

subsection \<open>storage.js: export\<close>

datatype json =
    JSON_null
  | JSON_bool bool
  | JSON_number jsnum
  | JSON_string string
  | JSON_array "json list"
  | JSON_object "(string \<times> json) list"
  | JSON_function

text \<open>
  \<^verbatim>\<open>JSON.stringify(value, null, space)\<close>, after the algorithm of the language standard:
  strings are quoted with the control characters, the quote and the backslash escaped; a
  number that is not finite is \<open>null\<close>; a property whose value is a function is left
  out, and a function in an array is \<open>null\<close>; with a gap, every element and property is on a
  line of its own, indented by one more gap than its parent. The rendering of a finite
  number (the shortest decimal that reads back as the same double) is a parameter.
\<close>

definition hex_digit :: "nat \<Rightarrow> char" where
  "hex_digit n = ''0123456789abcdef'' ! n"

definition quote_char :: "char \<Rightarrow> string" where
  "quote_char c =
     (if c = CHR 0x08 then [CHR 0x5C, CHR ''b'']
      else if c = CHR 0x09 then [CHR 0x5C, CHR ''t'']
      else if c = CHR 0x0A then [CHR 0x5C, CHR ''n'']
      else if c = CHR 0x0C then [CHR 0x5C, CHR ''f'']
      else if c = CHR 0x0D then [CHR 0x5C, CHR ''r'']
      else if c = CHR 0x22 then [CHR 0x5C, CHR 0x22]
      else if c = CHR 0x5C then [CHR 0x5C, CHR 0x5C]
      else if (of_char c :: nat) < 32 then
        [CHR 0x5C, CHR ''u'', CHR ''0'', CHR ''0'',
         hex_digit (of_char c div 16), hex_digit (of_char c mod 16)]
      else [c])"

definition QuoteJSONString :: "string \<Rightarrow> string" where
  "QuoteJSONString s = CHR 0x22 # concat (map quote_char s) @ [CHR 0x22]"

fun join :: "string \<Rightarrow> string list \<Rightarrow> string" where
  "join sep [] = []"
| "join sep [x] = x"
| "join sep (x # y # ys) = x @ sep @ join sep (y # ys)"

fun SerializeJSON :: "(real \<Rightarrow> string) \<Rightarrow> string \<Rightarrow> string \<Rightarrow> json \<Rightarrow> string" where
  "SerializeJSON numberToString gap indent JSON_null = ''null''"
| "SerializeJSON numberToString gap indent (JSON_bool b) = (if b then ''true'' else ''false'')"
| "SerializeJSON numberToString gap indent (JSON_number n) =
     (case n of Fin r \<Rightarrow> numberToString r | _ \<Rightarrow> ''null'')"
| "SerializeJSON numberToString gap indent (JSON_string s) = QuoteJSONString s"
| "SerializeJSON numberToString gap indent (JSON_array elements) =
     (let stepback = indent;
          indent = indent @ gap;
          partial = map (SerializeJSON numberToString gap indent) elements
      in if partial = [] then ''[]''
         else if gap = [] then ''['' @ join '','' partial @ '']''
         else ''['' @ [CHR 0x0A] @ indent @ join ('','' @ [CHR 0x0A] @ indent) partial @
              [CHR 0x0A] @ stepback @ '']'')"
| "SerializeJSON numberToString gap indent (JSON_object properties) =
     (let stepback = indent;
          indent = indent @ gap;
          partial = map (\<lambda>(k, v).
            QuoteJSONString k @ '':'' @ (if gap \<noteq> [] then '' '' else []) @
            SerializeJSON numberToString gap indent v)
            (filter (\<lambda>(k, v). v \<noteq> JSON_function) properties)
      in if partial = [] then ''{}''
         else if gap = [] then ''{'' @ join '','' partial @ ''}''
         else ''{'' @ [CHR 0x0A] @ indent @ join ('','' @ [CHR 0x0A] @ indent) partial @
              [CHR 0x0A] @ stepback @ ''}'')"
| "SerializeJSON numberToString gap indent JSON_function = ''null''"

definition JSON_stringify :: "(real \<Rightarrow> string) \<Rightarrow> json \<Rightarrow> nat \<Rightarrow> string" where
  "JSON_stringify numberToString v space =
     SerializeJSON numberToString (replicate (min 10 space) (CHR '' '')) [] v"

text \<open>\<^verbatim>\<open>Product.toJSON\<close>, the form in which an entry is persisted and exported.\<close>

definition toJSON :: "product \<Rightarrow> json" where
  "toJSON this =
     JSON_object
       [(''id'', JSON_number (Fin (of_int (ident this)))),
        (''title'', JSON_string (title this)),
        (''price'', JSON_number (Fin (price this))),
        (''description'', JSON_string (description this)),
        (''category'', JSON_string (product.category this)),
        (''image'', JSON_string (image_uri this)),
        (''rating'', JSON_object
           [(''rate'', JSON_number (Fin (rate (rating this)))),
            (''count'', JSON_number (Fin (of_nat (count (rating this)))))])]"

text \<open>
  The result of a lookup in the rate table as \<^verbatim>\<open>JSON.stringify\<close> sees it: the prototype
  object has no enumerable property of its own, and \<^verbatim>\<open>undefined\<close> is left out like a
  function.
\<close>

fun member_json :: "jsnum member \<Rightarrow> json" where
  "member_json (Own r) = JSON_number r"
| "member_json Inherited_function = JSON_function"
| "member_json Inherited_prototype = JSON_object []"
| "member_json Undefined_member = JSON_function"

text \<open>
  \<^verbatim>\<open>exportQuoteData(currency, exchangeRates)\<close>; \<^verbatim>\<open>new Date().toISOString()\<close> reads the
  clock of the state.
\<close>

definition exportQuoteData :: "(real \<Rightarrow> string) \<Rightarrow> string \<Rightarrow> rates \<Rightarrow> browser \<Rightarrow> string" where
  "exportQuoteData numberToString currency exchangeRates b =
     (let quoteList = loadQuoteList b;
          exportData = JSON_object
            [(''currency'', JSON_string currency),
             (''timestamp'', JSON_string (clock b)),
             (''items'', JSON_array (map toJSON quoteList)),
             (''exchangeRate'',
                (let rate = get_member exchangeRates currency in
                 if rate_missing rate then JSON_number (Fin 1) else member_json rate))]
      in JSON_stringify numberToString exportData 2)"

text \<open>The rendering of a number without a fractional part, for the examples.\<close>

definition integer_toString :: "real \<Rightarrow> string" where
  "integer_toString r = (if r < 0 then ''-'' else []) @ digits (nat \<lfloor>\<bar>r\<bar>\<rfloor>)"

text \<open>
  The exported object as the specification words it: the rate of the currency, or \<open>1\<close>
  if the currency is absent from the table.
\<close>

definition claimed_exportData :: "string \<Rightarrow> rates \<Rightarrow> browser \<Rightarrow> json" where
  "claimed_exportData c R b =
     JSON_object
       [(''currency'', JSON_string c),
        (''timestamp'', JSON_string (clock b)),
        (''items'', JSON_array (map toJSON (loadQuoteList b))),
        (''exchangeRate'', JSON_number (case R c of None \<Rightarrow> Fin 1 | Some r \<Rightarrow> r))]"

section \<open>Properties\<close>

subsection \<open>Conversion\<close>

lemma truthy_number_cases:
  "truthy (JNum x) \<longleftrightarrow> x \<noteq> NaN \<and> x \<noteq> Fin 0"
  by (cases x) auto

lemma convertPrice_falsy:
  "\<not> truthy v \<Longrightarrow> convertPrice v c R = (JNum (Fin 0), [])"
  by (simp add: convertPrice_def)

lemma convertPrice_not_number:
  "typeof v \<noteq> ''number'' \<Longrightarrow> convertPrice v c R = (JNum (Fin 0), [])"
  by (simp add: convertPrice_def)

lemma convertPrice_zero:
  "convertPrice (JNum (Fin 0)) c R = (JNum (Fin 0), [])"
  by (simp add: convertPrice_def)

lemma convertPrice_valid_amount:
  assumes "truthy (JNum x)"
  shows "convertPrice (JNum x) c R =
           (if c = ''USD'' then (JNum x, [])
            else if rate_missing (get_member R c) then
              (JNum x, [''Exchange rate not found for '' @ c @ '', using USD''])
            else (JNum (js_mul x (rate_number (get_member R c))), []))"
  using assms by (simp add: convertPrice_def)

text \<open>
  C2. Converting to the base currency is the identity: for every rate table and every
  amount (every number, finite or infinite; NaN is not an amount and is not equal to
  itself), \<^verbatim>\<open>convertPrice(x, "USD", R)\<close> returns \<open>x\<close> and writes no warning.
\<close>

theorem convertPrice_USD_identity:
  "x \<noteq> NaN \<Longrightarrow> convertPrice (JNum x) ''USD'' R = (JNum x, [])"
  by (cases x) (auto simp: convertPrice_def)

theorem convertPrice_USD_identity_witness:
  "Fin 19.99 \<noteq> NaN \<and>
   convertPrice (JNum (Fin 19.99)) ''USD'' (map_of [(''EUR'', Fin 0.92)]) = (JNum (Fin 19.99), [])"
  using convertPrice_USD_identity [of "Fin 19.99" "map_of [(''EUR'', Fin 0.92)]"] by simp

lemma get_member_own: "R c = Some r \<Longrightarrow> get_member R c = Own r"
  by (simp add: get_member_def)

lemma get_member_undefined:
  "R c = None \<Longrightarrow> c \<notin> set Object_prototype_functions \<Longrightarrow> c \<noteq> ''__proto__'' \<Longrightarrow>
     get_member R c = Undefined_member"
  by (simp add: get_member_def)

text \<open>
  The fallback for a missing rate, where the code has it: when the lookup gives
  \<^verbatim>\<open>undefined\<close>, the amount comes back unconverted, with the warning unless the target is
  USD.
\<close>

lemma convertPrice_undefined_rate:
  assumes "get_member R c = Undefined_member" and "x \<noteq> NaN"
  shows "fst (convertPrice (JNum x) c R) = JNum x"
  using assms by (cases x) (auto simp: convertPrice_def)

text \<open>
  C3. The claim: for every currency \<open>c\<close> that the rate table lacks and every amount \<open>x\<close>,
  \<^verbatim>\<open>convertPrice(x, c, R)\<close> returns \<open>x\<close>. The code misses the keys that the table inherits
  from \<^verbatim>\<open>Object.prototype\<close>: \<open>toString\<close> is not a key of the table \<^verbatim>\<open>{EUR: 0.92}\<close>, yet
  the lookup gives a function, the test \<^verbatim>\<open>!rate\<close> fails, and \<^verbatim>\<open>convertPrice(10, "toString",
  {EUR: 0.92})\<close> is the product of \<open>10\<close> and a function, NaN, with no warning.
\<close>

theorem convertPrice_inherited_key:
  "map_of [(''EUR'', Fin 0.92)] ''toString'' = None \<and>
   convertPrice (JNum (Fin 10)) ''toString'' (map_of [(''EUR'', Fin 0.92)]) = (JNum NaN, [])"
  by (simp add: convertPrice_def get_member_def Object_prototype_functions_def)

theorem convertPrice_inherited_key_witness:
  "fst (convertPrice (JNum (Fin 10)) ''toString'' (map_of [(''EUR'', Fin 0.92)])) \<noteq> JNum (Fin 10)"
  using convertPrice_inherited_key by simp

text \<open>
  C4, as stated: every amount that is not a valid non-negative finite number (missing,
  NaN, negative or infinite) is turned into \<open>0\<close>. The guard of the code tests falsiness
  and the type only, so a negative amount is converted like any other.
\<close>

theorem convertPrice_negative_counterexample:
  "fst (convertPrice (JNum (Fin (- 5))) ''USD'' (map_of [])) \<noteq> JNum (Fin 0)"
  by (simp add: convertPrice_def)

text \<open>
  C4, amended: for every target currency and rate table, \<^verbatim>\<open>convertPrice\<close> returns \<open>0\<close>
  exactly on the guard of the code: when the amount is falsy (missing, null, NaN, zero) or
  is not of type number. Every other amount, the negative and the infinite ones included,
  is converted.
\<close>

theorem convertPrice_invalid_amount:
  "\<not> truthy v \<or> typeof v \<noteq> ''number'' \<Longrightarrow> convertPrice v c R = (JNum (Fin 0), [])"
  by (auto simp: convertPrice_def)

theorem convertPrice_invalid_amount_witness:
  "truthy (JNum NaN) = False \<and>
   convertPrice (JNum NaN) ''JPY'' (map_of [(''JPY'', Fin 149.5)]) = (JNum (Fin 0), [])"
  using convertPrice_invalid_amount [of "JNum NaN" "''JPY''" "(map_of [(''JPY'', Fin 149.5)])"] by simp

text \<open>
  C9. A rate of zero is treated as a missing rate: for every amount \<open>x\<close> and every table
  that maps \<open>c\<close> to \<open>0\<close>, \<^verbatim>\<open>convertPrice(x, c, R)\<close> returns \<open>x\<close>, not \<open>x * 0\<close>.
\<close>

theorem convertPrice_zero_rate:
  "R c = Some (Fin 0) \<Longrightarrow> x \<noteq> NaN \<Longrightarrow> fst (convertPrice (JNum x) c R) = JNum x"
  by (cases x) (auto simp: convertPrice_def get_member_own)

theorem convertPrice_zero_rate_witness:
  "(map_of [(''EUR'', Fin 0)]) ''EUR'' = Some (Fin 0) \<and> Fin 10 \<noteq> NaN \<and>
   fst (convertPrice (JNum (Fin 10)) ''EUR'' (map_of [(''EUR'', Fin 0)])) = JNum (Fin 10)"
  using convertPrice_zero_rate [of "(map_of [(''EUR'', Fin 0)])" "''EUR''" "Fin 10"] by simp

subsection \<open>Formatting\<close>

lemma getCurrencySymbol_known:
  "getCurrencySymbol ''USD'' = ''$''"
  "getCurrencySymbol ''EUR'' = euro_sign"
  "getCurrencySymbol ''GBP'' = pound_sign"
  "getCurrencySymbol ''JPY'' = yen_sign"
  "getCurrencySymbol ''MXN'' = ''$''"
  by (simp_all add: getCurrencySymbol_def get_member_def CURRENCY_SYMBOLS_def
      euro_sign_def pound_sign_def yen_sign_def)

lemma formatPrice_finite:
  "formatPrice (JNum (Fin x)) c =
     getCurrencySymbol c @
       (if c = ''JPY'' then toLocaleString (Math_round (Fin x)) 0 3
        else toLocaleString (Fin x) 2 2)"
  by (simp add: formatPrice_def)

lemma replicate_two: "replicate 2 x = [x, x]"
  by (simp add: numeral_2_eq_2)

lemma format_decimal_steps:
  assumes "nat \<lfloor>\<bar>r\<bar> * 10 ^ maxFrac + 1 / 2\<rfloor> = scaled"
    and "digits (scaled div 10 ^ maxFrac) = whole"
    and "strip_zeros minFrac (pad_zeros maxFrac (digits (scaled mod 10 ^ maxFrac))) = decimals"
  shows "format_decimal r minFrac maxFrac =
           (if r < 0 then ''-'' else []) @ grouped whole @
           (if maxFrac = 0 \<or> decimals = [] then [] else CHR ''.'' # decimals)"
  unfolding format_decimal_def Let_def assms ..

lemma format_decimal_1235: "format_decimal 1235 0 3 = ''1,235''"
proof -
  have s: "nat \<lfloor>\<bar>1235::real\<bar> * 10 ^ 3 + 1 / 2\<rfloor> = 1235000" by simp
  have w: "digits (1235000 div 10 ^ 3) = ''1235''" by (simp add: digits.simps)
  have d: "digits (1235000 mod 10 ^ 3) = ''0''" by (simp add: digits.simps)
  have f: "strip_zeros 0 (pad_zeros 3 (digits (1235000 mod 10 ^ 3))) = []"
    unfolding d by (simp add: pad_zeros_def replicate_two strip_zeros.simps)
  have g: "grouped ''1235'' = ''1,235''" by (simp add: grouped_def)
  show ?thesis
    unfolding format_decimal_steps [OF s w f] g by simp
qed

lemma format_decimal_1234_50: "format_decimal (2469 / 2) 2 2 = ''1,234.50''"
proof -
  have s: "nat \<lfloor>\<bar>2469 / 2::real\<bar> * 10 ^ 2 + 1 / 2\<rfloor> = 123450" by simp
  have w: "digits (123450 div 10 ^ 2) = ''1234''" by (simp add: digits.simps)
  have d: "digits (123450 mod 10 ^ 2) = ''50''" by (simp add: digits.simps)
  have f: "strip_zeros 2 (pad_zeros 2 (digits (123450 mod 10 ^ 2))) = ''50''"
    unfolding d by (simp add: pad_zeros_def strip_zeros.simps)
  have g: "grouped ''1234'' = ''1,234''" by (simp add: grouped_def)
  show ?thesis
    unfolding format_decimal_steps [OF s w f] g by simp
qed

lemma Math_round_1234_5: "Math_round (Fin (2469 / 2)) = Fin 1235"
  by (simp add: Math_round_def)

text \<open>
  C5. For every finite amount the formatted price begins with the symbol of the currency
  (\<open>$\<close> for USD and MXN, the euro, pound and yen signs for EUR, GBP and JPY). The amount
  \<open>1234.5\<close> is rendered in JPY as the yen sign and \<open>1,235\<close>: rounded to an integer, no
  decimal separator; in USD it is \<open>$1,234.50\<close>: two decimals; both with the comma as the
  thousands separator.
\<close>

theorem formatPrice_symbol_and_decimals:
  "prefix ''$'' (formatPrice (JNum (Fin x)) ''USD'') \<and>
   prefix euro_sign (formatPrice (JNum (Fin x)) ''EUR'') \<and>
   prefix pound_sign (formatPrice (JNum (Fin x)) ''GBP'') \<and>
   prefix yen_sign (formatPrice (JNum (Fin x)) ''JPY'') \<and>
   prefix ''$'' (formatPrice (JNum (Fin x)) ''MXN'') \<and>
   formatPrice (JNum (Fin 1234.5)) ''JPY'' = yen_sign @ ''1,235'' \<and>
   CHR ''.'' \<notin> set (formatPrice (JNum (Fin 1234.5)) ''JPY'') \<and>
   formatPrice (JNum (Fin 1234.5)) ''USD'' = ''$1,234.50''"
proof -
  have jpy: "formatPrice (JNum (Fin 1234.5)) ''JPY'' = yen_sign @ ''1,235''"
    by (simp add: formatPrice_finite getCurrencySymbol_known Math_round_1234_5
        toLocaleString_def format_decimal_1235)
  have usd: "formatPrice (JNum (Fin 1234.5)) ''USD'' = ''$1,234.50''"
    by (simp add: formatPrice_finite getCurrencySymbol_known toLocaleString_def
        format_decimal_1234_50)
  have nodot: "CHR ''.'' \<notin> set (formatPrice (JNum (Fin 1234.5)) ''JPY'')"
    unfolding jpy by (simp add: yen_sign_def)
  have p: "prefix (getCurrencySymbol c) (formatPrice (JNum (Fin x)) c)" for c
    by (simp add: formatPrice_finite)
  have p1: "prefix ''$'' (formatPrice (JNum (Fin x)) ''USD'')"
    using p [of "''USD''"] by (simp only: getCurrencySymbol_known)
  have p2: "prefix euro_sign (formatPrice (JNum (Fin x)) ''EUR'')"
    using p [of "''EUR''"] by (simp only: getCurrencySymbol_known)
  have p3: "prefix pound_sign (formatPrice (JNum (Fin x)) ''GBP'')"
    using p [of "''GBP''"] by (simp only: getCurrencySymbol_known)
  have p4: "prefix yen_sign (formatPrice (JNum (Fin x)) ''JPY'')"
    using p [of "''JPY''"] by (simp only: getCurrencySymbol_known)
  have p5: "prefix ''$'' (formatPrice (JNum (Fin x)) ''MXN'')"
    using p [of "''MXN''"] by (simp only: getCurrencySymbol_known)
  show ?thesis
    by (intro conjI p1 p2 p3 p4 p5 jpy nodot usd)
qed

theorem formatPrice_symbol_and_decimals_witness:
  "prefix ''$'' (formatPrice (JNum (Fin 1234.5)) ''USD'') \<and>
   prefix yen_sign (formatPrice (JNum (Fin 1234.5)) ''JPY'') \<and>
   formatPrice (JNum (Fin 1234.5)) ''JPY'' = yen_sign @ ''1,235'' \<and>
   formatPrice (JNum (Fin 1234.5)) ''USD'' = ''$1,234.50''"
  using formatPrice_symbol_and_decimals [of "1234.5"] by simp

text \<open>
  C10. An amount that is not a number, or is NaN, is rendered as the symbol of the currency
  followed by \<open>0.00\<close>, for every currency: the branch comes before the test for JPY, so
  JPY has the two decimals too.
\<close>

theorem formatPrice_not_a_number:
  "typeof v \<noteq> ''number'' \<or> v = JNum NaN \<Longrightarrow>
     formatPrice v c = getCurrencySymbol c @ ''0.00''"
  by (auto simp: formatPrice_def)

theorem formatPrice_not_a_number_witness:
  "number_of (JNum NaN) = NaN \<and>
   formatPrice (JNum NaN) ''JPY'' = yen_sign @ ''0.00''"
  using formatPrice_not_a_number [of "JNum NaN" "''JPY''"]
  by (simp add: getCurrencySymbol_known)

subsection \<open>Filters\<close>

lemma string_includes_sublist: "string_includes hay needle \<longleftrightarrow> sublist needle hay"
proof (induction hay)
  case Nil
  show ?case by simp
next
  case (Cons c cs)
  have "take (length needle) (c # cs) = needle \<longleftrightarrow> prefix needle (c # cs)"
    by (metis append_take_drop_id prefix_def append_eq_conv_conj)
  then show ?case
    using Cons by (cases needle) (auto simp: sublist_Cons_right)
qed

lemma is_whitespace_lower: "is_whitespace (toLowerCase_char c) = is_whitespace c"
proof (cases "map_of (zip ''ABCDEFGHIJKLMNOPQRSTUVWXYZ'' ''abcdefghijklmnopqrstuvwxyz'') c")
  case None
  then show ?thesis by (simp add: toLowerCase_char_def)
next
  case (Some l)
  then have "(c, l) \<in> set (zip ''ABCDEFGHIJKLMNOPQRSTUVWXYZ'' ''abcdefghijklmnopqrstuvwxyz'')"
    by (rule map_of_SomeD)
  then have "c \<in> set ''ABCDEFGHIJKLMNOPQRSTUVWXYZ''" and "l \<in> set ''abcdefghijklmnopqrstuvwxyz''"
    by (auto dest: set_zip_leftD set_zip_rightD)
  then have "\<not> is_whitespace c" and "\<not> is_whitespace l"
    by (auto simp: is_whitespace_def)
  with Some show ?thesis by (simp add: toLowerCase_char_def)
qed

lemma trim_toLowerCase: "trim (toLowerCase s) = toLowerCase (trim s)"
  by (simp add: trim_def toLowerCase_def dropWhile_map rev_map comp_def is_whitespace_lower)

lemma blank_trim: "blank s \<longleftrightarrow> trim s = []"
proof
  assume "blank s"
  then show "trim s = []"
    by (auto simp: blank_def list_all_iff trim_def dest: set_dropWhileD)
next
  assume t: "trim s = []"
  show "blank s"
  proof (cases "dropWhile is_whitespace s")
    case Nil
    then show ?thesis by (simp add: blank_def list_all_iff dropWhile_eq_Nil_conv)
  next
    case (Cons a as)
    then have "\<not> is_whitespace a" by (metis hd_dropWhile list.sel(1) list.distinct(1))
    moreover from t Cons have "\<forall>x\<in>set (a # as). is_whitespace x"
      by (simp add: trim_def dropWhile_eq_Nil_conv)
    ultimately show ?thesis by simp
  qed
qed

lemma blank_Nil: "blank []"
  by (simp add: blank_def)

lemma filterByCategory_filter:
  "filterByCategory ps c = filter (category_passes (Some c)) ps"
  by (auto simp: filterByCategory_def category_passes_def intro: filter_cong)

lemma search_term_match:
  "string_includes (toLowerCase hay) (trim (toLowerCase q)) = ci_substring (trim q) hay"
  by (simp add: string_includes_sublist trim_toLowerCase ci_substring_def)

lemma filterBySearch_filter:
  "filterBySearch ps q = filter (search_passes (Some q)) ps"
proof (cases "q = [] \<or> trim q = []")
  case True
  then have "blank q" using blank_trim blank_Nil by auto
  then have "search_passes (Some q) = (\<lambda>p. True)"
    by (simp add: search_passes_def fun_eq_iff)
  with True show ?thesis by (simp add: filterBySearch_def)
next
  case False
  then have "\<not> blank q" by (simp add: blank_trim)
  then have "search_passes (Some q) =
      (\<lambda>p. ci_substring (trim q) (title p) \<or> ci_substring (trim q) (description p) \<or>
           ci_substring (trim q) (product.category p))"
    by (simp add: search_passes_def fun_eq_iff)
  with False show ?thesis
    by (simp add: filterBySearch_def search_term_match)
qed

lemma isInCategory_passes: "isInCategory p c = category_passes (Some c) p"
  by (auto simp: isInCategory_def category_passes_def)

lemma matchesSearch_passes: "matchesSearch p q = search_passes (Some q) p"
proof (cases "q = [] \<or> trim q = []")
  case True
  then have "blank q" using blank_trim blank_Nil by auto
  with True show ?thesis by (simp add: matchesSearch_def search_passes_def)
next
  case False
  then have "\<not> blank q" by (simp add: blank_trim)
  with False show ?thesis
    by (simp add: matchesSearch_def search_passes_def search_term_match)
qed

text \<open>
  C1. \<^verbatim>\<open>applyFilters\<close> returns, in their original order, exactly the products that pass
  the category predicate and the search predicate.
\<close>

theorem applyFilters_filter:
  "applyFilters ps fs =
     filter (\<lambda>p. category_passes (filters.category fs) p \<and> search_passes (filters.search fs) p) ps"
proof -
  have c: "(case filters.category fs of
              None \<Rightarrow> ps
            | Some c \<Rightarrow> if c \<noteq> [] then filterByCategory ps c else ps) =
           filter (category_passes (filters.category fs)) ps"
    by (auto simp: filterByCategory_filter category_passes_def split: option.split)
  have s: "(case filters.search fs of
              None \<Rightarrow> qs
            | Some q \<Rightarrow> if q \<noteq> [] then filterBySearch qs q else qs) =
           filter (search_passes (filters.search fs)) qs" for qs
    by (auto simp: filterBySearch_filter search_passes_def blank_Nil split: option.split)
  show ?thesis
    unfolding applyFilters_def Let_def c s by (simp add: conj_commute)
qed

theorem applyFilters_filter_witness:
  "applyFilters [phone, desk, radio] \<lparr>search = Some ''  PHONE '', category = Some ''electronics''\<rparr>
     = [phone]"
  unfolding applyFilters_filter
  by (simp add: category_passes_def search_passes_def blank_def ci_substring_def trim_def
      is_whitespace_def toLowerCase_def toLowerCase_char_def sublist_code
      phone_def desk_def radio_def)

lemma ProductCollection_applyFilters_eq:
  "ProductCollection_applyFilters ps fs = applyFilters ps fs"
  unfolding ProductCollection_applyFilters_def applyFilters_def Let_def
  by (simp add: isInCategory_passes matchesSearch_passes filterByCategory_filter
      filterBySearch_filter split: option.split)

subsection \<open>Sorting\<close>

lemma insert_ordered_key:
  "insert_ordered (\<lambda>a b. k a - k b) x ys = insort_key k x ys"
  by (induction ys) auto

lemma Array_sort_key: "Array_sort (\<lambda>a b. k a - k b) xs = sort_key k xs"
  by (simp add: Array_sort_def sort_key_def insert_ordered_key [abs_def])

lemma Array_sort_key_desc:
  "Array_sort (\<lambda>a b. k b - k a) xs = sort_key (\<lambda>a. - k a) xs"
  using Array_sort_key [of "\<lambda>a. - k a" xs] by simp

lemma sort_key_rev_desc:
  fixes k :: "'a \<Rightarrow> real"
  assumes "distinct (map k xs)"
  shows "sort_key k xs = rev (sort_key (\<lambda>a. - k a) xs)"
proof (rule map_sorted_distinct_set_unique [where f = k])
  from assms have d: "distinct xs" and i: "inj_on k (set xs)"
    by (simp_all add: distinct_map)
  show "inj_on k (set (sort_key k xs) \<union> set (rev (sort_key (\<lambda>a. - k a) xs)))"
    using i by simp
  show "sorted (map k (sort_key k xs))" by (rule sorted_sort_key)
  show "distinct (map k (sort_key k xs))"
    using d i by (simp add: distinct_map)
  have "sorted (map (\<lambda>a. - k a) (sort_key (\<lambda>a. - k a) xs))" by (rule sorted_sort_key)
  then have "sorted_wrt (\<lambda>a b. k b \<le> k a) (sort_key (\<lambda>a. - k a) xs)"
    by (simp add: sorted_wrt_map)
  then show "sorted (map k (rev (sort_key (\<lambda>a. - k a) xs)))"
    by (simp add: rev_map[symmetric] sorted_wrt_map sorted_wrt_rev)
  show "distinct (map k (rev (sort_key (\<lambda>a. - k a) xs)))"
    using d i by (simp add: distinct_map)
  show "set (sort_key k xs) = set (rev (sort_key (\<lambda>a. - k a) xs))" by simp
qed

text \<open>
  C8. When the prices of the products are pairwise distinct, sorting by ascending price
  gives the reverse of sorting by descending price.
\<close>

theorem sortProducts_price_reverse:
  "distinct (map price ps) \<Longrightarrow>
     sortProducts lc ps ''price-asc'' = rev (sortProducts lc ps ''price-desc'')"
  by (simp add: sortProducts_def Array_sort_key Array_sort_key_desc sort_key_rev_desc)

theorem sortProducts_price_reverse_witness:
  "distinct (map price [phone, desk, radio]) \<and>
   sortProducts (\<lambda>a b. 0) [phone, desk, radio] ''price-asc'' = [radio, desk, phone] \<and>
   sortProducts (\<lambda>a b. 0) [phone, desk, radio] ''price-desc'' = [phone, desk, radio]"
proof -
  have d: "distinct (map price [phone, desk, radio])"
    by (simp add: phone_def desk_def radio_def)
  have desc: "sortProducts (\<lambda>a b. 0) [phone, desk, radio] ''price-desc'' = [phone, desk, radio]"
    by (simp add: sortProducts_def Array_sort_def phone_def desk_def radio_def)
  from sortProducts_price_reverse [OF d, of "\<lambda>a b. 0"] desc d show ?thesis
    by simp
qed

subsection \<open>The quote ledger\<close>

lemma loadQuoteList_saveQuoteList:
  "loadQuoteList (snd (saveQuoteList l b)) =
     (if getItem_throws b then [] else if setItem_throws b then loadQuoteList b else l)"
  by (simp add: loadQuoteList_def saveQuoteList_def saveToStorage_def loadFromStorage_def)

lemma distinct_ids_append:
  "distinct (map ident l) \<Longrightarrow> \<not> list_ex (\<lambda>item. ident item = ident p) l \<Longrightarrow>
     distinct (map ident (l @ [p]))"
  by (auto simp: list_ex_iff)

lemma count_ids_absent:
  "\<not> list_ex (\<lambda>item. ident item = ident p) l \<Longrightarrow>
     filter (\<lambda>e. ident e = ident p) l = []"
  by (simp add: list_ex_iff filter_empty_conv)

lemma count_ids_present:
  "distinct (map ident l) \<Longrightarrow> list_ex (\<lambda>item. ident item = ident p) l \<Longrightarrow>
     length (filter (\<lambda>e. ident e = ident p) l) = 1"
proof (induction l)
  case Nil
  then show ?case by simp
next
  case (Cons a l)
  show ?case
  proof (cases "ident a = ident p")
    case True
    with Cons.prems have "filter (\<lambda>e. ident e = ident p) l = []"
      by (force simp: filter_empty_conv)
    with True show ?thesis by simp
  next
    case False
    with Cons show ?thesis by simp
  qed
qed

lemma addToQuote_ledger_distinct:
  assumes "distinct (map ident (loadQuoteList b))"
  shows "distinct (map ident (loadQuoteList (snd (addToQuote p b))))"
  using assms
  by (auto simp: addToQuote_def Let_def loadQuoteList_saveQuoteList distinct_ids_append
      simp del: map_append)

lemma addToQuote_result_distinct:
  assumes "distinct (map ident (loadQuoteList b))"
  shows "distinct (map ident (fst (addToQuote p b)))"
  using assms
  by (auto simp: addToQuote_def Let_def list_ex_iff)

lemma addToQuote_result_once:
  assumes "distinct (map ident (loadQuoteList b))"
  shows "length (filter (\<lambda>e. ident e = ident p) (fst (addToQuote p b))) = 1"
  using assms
  by (simp add: addToQuote_def Let_def count_ids_absent count_ids_present)

lemma addToQuote_ledger_once:
  assumes "distinct (map ident (loadQuoteList b))" and "storage_works b"
  shows "length (filter (\<lambda>e. ident e = ident p) (loadQuoteList (snd (addToQuote p b)))) = 1"
  using assms
  by (simp add: addToQuote_def Let_def loadQuoteList_saveQuoteList storage_works_def
      count_ids_absent count_ids_present)

lemma addToQuote_present:
  "list_ex (\<lambda>item. ident item = ident p) (loadQuoteList b) \<Longrightarrow>
     addToQuote p b = (loadQuoteList b, b)"
  by (simp add: addToQuote_def)

lemma addToQuote_then_present:
  assumes "storage_works b"
  shows "list_ex (\<lambda>item. ident item = ident p) (loadQuoteList (snd (addToQuote p b)))"
  using assms
  by (auto simp: addToQuote_def Let_def loadQuoteList_saveQuoteList storage_works_def)

lemma addToQuote_twice_noop:
  assumes "storage_works b"
  shows "addToQuote p (snd (addToQuote p b)) =
           (loadQuoteList (snd (addToQuote p b)), snd (addToQuote p b))"
  using addToQuote_then_present [OF assms] by (rule addToQuote_present)

lemma removeFromQuote_ledger_distinct:
  assumes "distinct (map ident (loadQuoteList b))"
  shows "distinct (map ident (loadQuoteList (snd (removeFromQuote i b))))"
  using assms
  by (simp add: removeFromQuote_def Let_def loadQuoteList_saveQuoteList distinct_map_filter)

lemma removeFromQuote_result_distinct:
  assumes "distinct (map ident (loadQuoteList b))"
  shows "distinct (map ident (fst (removeFromQuote i b)))"
  using assms by (simp add: removeFromQuote_def Let_def distinct_map_filter)

lemma clearQuote_ledger_distinct:
  assumes "distinct (map ident (loadQuoteList b))"
  shows "distinct (map ident (loadQuoteList (snd (clearQuote b))))"
  using assms by (simp add: clearQuote_def loadQuoteList_saveQuoteList)

lemma removeFromQuote_empty:
  assumes "loadQuoteList b = []"
  shows "fst (removeFromQuote i b) = []" and "loadQuoteList (snd (removeFromQuote i b)) = []"
  using assms by (simp_all add: removeFromQuote_def Let_def loadQuoteList_saveQuoteList)

text \<open>
  C7. From a persisted quote list with pairwise distinct ids, \<^verbatim>\<open>addToQuote\<close>,
  \<^verbatim>\<open>removeFromQuote\<close> and \<^verbatim>\<open>clearQuote\<close> leave a persisted list with pairwise distinct
  ids, and return such a list. After \<^verbatim>\<open>addToQuote(p)\<close> twice the returned list has exactly
  one entry with the id of \<open>p\<close>; when the store accepts reads and writes, so has the
  persisted list, and the second call changes nothing. \<^verbatim>\<open>removeFromQuote\<close> on an empty
  ledger returns the empty list and leaves the ledger empty (it writes the empty list and
  the time of the update).
\<close>

theorem quote_ledger_unique_ids:
  assumes "distinct (map ident (loadQuoteList b))"
  shows "distinct (map ident (loadQuoteList (snd (addToQuote p b)))) \<and>
         distinct (map ident (fst (addToQuote p b))) \<and>
         distinct (map ident (loadQuoteList (snd (removeFromQuote i b)))) \<and>
         distinct (map ident (fst (removeFromQuote i b))) \<and>
         distinct (map ident (loadQuoteList (snd (clearQuote b)))) \<and>
         length (filter (\<lambda>e. ident e = ident p) (fst (addToQuote p (snd (addToQuote p b))))) = 1 \<and>
         (storage_works b \<longrightarrow>
            length (filter (\<lambda>e. ident e = ident p)
              (loadQuoteList (snd (addToQuote p (snd (addToQuote p b)))))) = 1 \<and>
            addToQuote p (snd (addToQuote p b)) =
              (loadQuoteList (snd (addToQuote p b)), snd (addToQuote p b))) \<and>
         (loadQuoteList b = [] \<longrightarrow>
            fst (removeFromQuote i b) = [] \<and> loadQuoteList (snd (removeFromQuote i b)) = [])"
proof -
  let ?b1 = "snd (addToQuote p b)"
  have d1: "distinct (map ident (loadQuoteList ?b1))"
    using assms by (rule addToQuote_ledger_distinct)
  have once: "length (filter (\<lambda>e. ident e = ident p) (fst (addToQuote p ?b1))) = 1"
    using d1 by (rule addToQuote_result_once)
  have twice: "length (filter (\<lambda>e. ident e = ident p)
        (loadQuoteList (snd (addToQuote p ?b1)))) = 1 \<and>
      addToQuote p ?b1 = (loadQuoteList ?b1, ?b1)" if w: "storage_works b"
  proof -
    have n: "addToQuote p ?b1 = (loadQuoteList ?b1, ?b1)"
      using w by (rule addToQuote_twice_noop)
    have "length (filter (\<lambda>e. ident e = ident p) (loadQuoteList ?b1)) = 1"
      using assms w by (rule addToQuote_ledger_once)
    with n show ?thesis by simp
  qed
  from twice have t: "storage_works b \<longrightarrow>
      length (filter (\<lambda>e. ident e = ident p)
        (loadQuoteList (snd (addToQuote p ?b1)))) = 1 \<and>
      addToQuote p ?b1 = (loadQuoteList ?b1, ?b1)"
    by blast
  have r: "loadQuoteList b = [] \<longrightarrow>
      fst (removeFromQuote i b) = [] \<and> loadQuoteList (snd (removeFromQuote i b)) = []"
    by (simp add: removeFromQuote_empty)
  show ?thesis
    by (intro conjI d1 once t r addToQuote_result_distinct [OF assms]
        removeFromQuote_ledger_distinct [OF assms] removeFromQuote_result_distinct [OF assms]
        clearQuote_ledger_distinct [OF assms])
qed

theorem quote_ledger_unique_ids_witness:
  "distinct (map ident (loadQuoteList fresh_browser)) \<and>
   storage_works fresh_browser \<and>
   loadQuoteList (snd (addToQuote phone (snd (addToQuote phone fresh_browser)))) = [phone] \<and>
   fst (removeFromQuote 1 fresh_browser) = []"
proof -
  have l: "loadQuoteList fresh_browser = []"
    by (simp add: loadQuoteList_def loadFromStorage_def fresh_browser_def)
  have w: "storage_works fresh_browser"
    by (simp add: storage_works_def fresh_browser_def)
  have a: "loadQuoteList (snd (addToQuote phone fresh_browser)) = [phone]"
    using w by (simp add: addToQuote_def Let_def l loadQuoteList_saveQuoteList storage_works_def)
  have d: "distinct (map ident (loadQuoteList fresh_browser))"
    by (simp add: l)
  from quote_ledger_unique_ids [OF d, of phone 1] l w a d show ?thesis
    by simp
qed

subsection \<open>Export\<close>

lemma exchangeRate_or_one:
  assumes "\<not> inherited_key R c"
  shows "(let rate = get_member R c in
          if rate_missing rate then JSON_number (Fin 1) else member_json rate) =
         JSON_number
           (case R c of None \<Rightarrow> Fin 1 | Some r \<Rightarrow> if r = NaN \<or> r = Fin 0 then Fin 1 else r)"
  using assms
  by (auto simp: inherited_key_def get_member_def truthy_number_cases split: option.split)

lemma loadQuoteList_fresh: "loadQuoteList fresh_browser = []"
  by (simp add: loadQuoteList_def loadFromStorage_def fresh_browser_def)

lemma two_spaces: "replicate (min 10 2) (CHR '' '') = ''  ''"
  by (simp add: numeral_2_eq_2)

lemma exportQuoteData_empty_ledger:
  assumes "loadQuoteList b = []" and "\<not> inherited_key R c"
  shows "exportQuoteData nts c R b =
     ''{'' @ [CHR 0x0A] @
     ''  '' @ QuoteJSONString ''currency'' @ '': '' @ QuoteJSONString c @ '','' @ [CHR 0x0A] @
     ''  '' @ QuoteJSONString ''timestamp'' @ '': '' @ QuoteJSONString (clock b) @ '','' @ [CHR 0x0A] @
     ''  '' @ QuoteJSONString ''items'' @ '': []'' @ '','' @ [CHR 0x0A] @
     ''  '' @ QuoteJSONString ''exchangeRate'' @ '': '' @
       SerializeJSON nts ''  '' ''  ''
         (JSON_number (case R c of None \<Rightarrow> Fin 1
            | Some r \<Rightarrow> if r = NaN \<or> r = Fin 0 then Fin 1 else r)) @ [CHR 0x0A] @
     ''}''"
  unfolding exportQuoteData_def Let_def JSON_stringify_def two_spaces assms(1)
    exchangeRate_or_one [OF assms(2), unfolded Let_def]
  by simp

text \<open>
  The same lookup with a key that the table inherits: the value of \<open>exchangeRate\<close> is a
  function, which \<^verbatim>\<open>JSON.stringify\<close> leaves out, so the text has three fields.
\<close>

lemma exportQuoteData_inherited_key:
  "exportQuoteData nts ''toString'' (map_of []) fresh_browser =
     JSON_stringify nts
       (JSON_object
          [(''currency'', JSON_string ''toString''),
           (''timestamp'', JSON_string (clock fresh_browser)),
           (''items'', JSON_array [])]) 2"
  by (simp add: exportQuoteData_def JSON_stringify_def loadQuoteList_fresh get_member_def
      Object_prototype_functions_def)

text \<open>
  C6, as stated: the exported \<open>exchangeRate\<close> is the rate of the currency, or \<open>1\<close> if the
  table has no rate for it. With the rate \<open>0\<close> in the table the code exports \<open>1\<close>.
\<close>

theorem exportQuoteData_zero_rate_counterexample:
  "exportQuoteData integer_toString ''EUR'' (map_of [(''EUR'', Fin 0)]) fresh_browser \<noteq>
     JSON_stringify integer_toString
       (claimed_exportData ''EUR'' (map_of [(''EUR'', Fin 0)]) fresh_browser) 2"
proof -
  have one: "integer_toString 1 = ''1''" and zero: "integer_toString 0 = ''0''"
    by (simp_all add: integer_toString_def digits.simps)
  have own: "\<not> inherited_key (map_of [(''EUR'', Fin 0)]) ''EUR''"
    by (simp add: inherited_key_def)
  show ?thesis
    unfolding exportQuoteData_empty_ledger [OF loadQuoteList_fresh own]
    unfolding claimed_exportData_def JSON_stringify_def two_spaces loadQuoteList_fresh
    by (simp add: one zero)
qed

text \<open>
  C6, amended: for every rate table \<open>R\<close> and every currency string \<open>c\<close> whose lookup in
  \<open>R\<close> does not end at a member inherited from \<^verbatim>\<open>Object.prototype\<close> (\<open>c\<close> is a key of
  \<open>R\<close>, or is none of the names of that prototype), \<^verbatim>\<open>exportQuoteData(c, R)\<close> is the JSON
  text, indented by two spaces, of the object with the four fields \<open>currency\<close> = \<open>c\<close>,
  \<open>timestamp\<close> = the current time, \<open>items\<close> = the persisted quote list and
  \<open>exchangeRate\<close> = the rate of \<open>c\<close> if \<open>R\<close> has one that is neither zero nor NaN, and
  \<open>1\<close> otherwise.
\<close>

theorem exportQuoteData_object:
  assumes "\<not> inherited_key R c"
  shows "exportQuoteData nts c R b =
     JSON_stringify nts
       (JSON_object
          [(''currency'', JSON_string c),
           (''timestamp'', JSON_string (clock b)),
           (''items'', JSON_array (map toJSON (loadQuoteList b))),
           (''exchangeRate'', JSON_number
              (case R c of
                 None \<Rightarrow> Fin 1
               | Some r \<Rightarrow> if r = NaN \<or> r = Fin 0 then Fin 1 else r))]) 2"
  unfolding exportQuoteData_def Let_def exchangeRate_or_one [OF assms, unfolded Let_def] ..

theorem exportQuoteData_object_witness:
  "inherited_key (map_of [(''EUR'', Fin 0.92)]) ''GBP'' = False \<and>
   exportQuoteData integer_toString ''GBP'' (map_of [(''EUR'', Fin 0.92)]) fresh_browser =
     JSON_stringify integer_toString
       (JSON_object
          [(''currency'', JSON_string ''GBP''),
           (''timestamp'', JSON_string ''2024-05-01T10:00:00.000Z''),
           (''items'', JSON_array []),
           (''exchangeRate'', JSON_number (Fin 1))]) 2"
proof -
  have n: "\<not> inherited_key (map_of [(''EUR'', Fin 0.92)]) ''GBP''"
    by (simp add: inherited_key_def Object_prototype_functions_def)
  have "exportQuoteData integer_toString ''GBP'' (map_of [(''EUR'', Fin 0.92)]) fresh_browser =
     JSON_stringify integer_toString
       (JSON_object
          [(''currency'', JSON_string ''GBP''),
           (''timestamp'', JSON_string ''2024-05-01T10:00:00.000Z''),
           (''items'', JSON_array []),
           (''exchangeRate'', JSON_number (Fin 1))]) 2"
    unfolding exportQuoteData_object [OF n]
    by (simp add: loadQuoteList_fresh) (simp add: fresh_browser_def)
  with n show ?thesis by simp
qed

end
